theory Spec2Isabelle
  imports Complex_Main
begin

section \<open>Common data model\<close>

text \<open>
  The agents of \<^verbatim>\<open>agent.py\<close> work on PyTorch tensors of 32-bit floats. The model
  idealises a float as a \<^typ>\<open>real\<close>; a tensor is the list of its elements, and its shape
  is represented by the number of elements.

  A network is a Python object with identity: two names can hold the same network, and
  a network's parameter tensors are mutated in place. So every parameter tensor lives
  at an address of a store, and a network is given by the addresses that
  \<^verbatim>\<open>net.parameters()\<close> yields, in order.
\<close>

datatype py_error =
    TypeError
  | AttributeError
  | RuntimeError
  | IndexError
  | ValueError
  | ZeroDivisionError

type_synonym tensor = "real list"

type_synonym addr = nat

type_synonym store = "addr \<Rightarrow> tensor"

section \<open>AgentBase.soft\_update\<close>

text \<open>
  \<^verbatim>\<open>cur.data.__mul__(tau)\<close>: every element times the scalar.
\<close>

definition tensor_mul :: "tensor \<Rightarrow> real \<Rightarrow> tensor" where
  "tensor_mul t c = map (\<lambda>x. x * c) t"

text \<open>
  \<^verbatim>\<open>a + b\<close> on tensors, elementwise. Two tensors of one shape always add; PyTorch
  raises RuntimeError on shapes it cannot broadcast. The broadcasting of unequal shapes
  is outside this model, which raises on every pair of unequal sizes.
\<close>

definition tensor_add :: "tensor \<Rightarrow> tensor \<Rightarrow> py_error + tensor" where
  "tensor_add a b = (if length a = length b then Inr (map2 (+) a b) else Inl RuntimeError)"

text \<open>
  \<^verbatim>\<open>
  for tar, cur in zip(target_net.parameters(), current_net.parameters()):
      tar.data.copy_(cur.data.__mul__(tau) + tar.data.__mul__(1 - tau))
  \<close>
  \<^verbatim>\<open>zip\<close> stops at the shorter list. \<^verbatim>\<open>copy_\<close> writes in place, so an exception at
  one pair leaves the earlier writes in the store: the result is the store as the call
  leaves it, with the exception raised, if any.
\<close>

fun soft_update :: "store \<Rightarrow> addr list \<Rightarrow> addr list \<Rightarrow> real \<Rightarrow> store \<times> py_error option" where
  "soft_update h (tar # target_net) (cur # current_net) tau =
     (case tensor_add (tensor_mul (h cur) tau) (tensor_mul (h tar) (1 - tau)) of
        Inl e \<Rightarrow> (h, Some e)
      | Inr v \<Rightarrow> soft_update (h(tar := v)) target_net current_net tau)"
| "soft_update h _ _ tau = (h, None)"

text \<open>The elementwise interpolation \<open>tau * current + (1 - tau) * target_old\<close>.\<close>

definition interpolate :: "real \<Rightarrow> tensor \<Rightarrow> tensor \<Rightarrow> tensor" where
  "interpolate tau cur tar = map2 (\<lambda>c t. tau * c + (1 - tau) * t) cur tar"

text \<open>Every pair of corresponding parameters has one shape.\<close>

definition same_shapes :: "store \<Rightarrow> addr list \<Rightarrow> addr list \<Rightarrow> bool" where
  "same_shapes h target_net current_net =
     list_all2 (\<lambda>tar cur. length (h tar) = length (h cur)) target_net current_net"

subsection \<open>Helper lemmas\<close>

lemma tensor_step_interpolate:
  "length c = length t \<Longrightarrow>
   tensor_add (tensor_mul c tau) (tensor_mul t (1 - tau)) = Inr (interpolate tau c t)"
proof (induction c arbitrary: t)
  case Nil
  then show ?case by (simp add: tensor_add_def tensor_mul_def interpolate_def)
next
  case (Cons x c)
  then obtain y t' where t: "t = y # t'" by (cases t) auto
  with Cons.prems have len: "length c = length t'" by simp
  from Cons.IH [OF len] have "map2 (+) (map (\<lambda>x. x * tau) c) (map (\<lambda>x. x * (1 - tau)) t')
      = map2 (\<lambda>c t. tau * c + (1 - tau) * t) c t'"
    using len by (simp add: tensor_add_def tensor_mul_def interpolate_def)
  then show ?case
    using len t by (simp add: tensor_add_def tensor_mul_def interpolate_def mult.commute)
qed

lemma interpolate_one: "length c = length t \<Longrightarrow> interpolate 1 c t = c"
  by (induction c t rule: list_induct2) (simp_all add: interpolate_def)

lemma interpolate_zero: "length c = length t \<Longrightarrow> interpolate 0 c t = t"
  by (induction c t rule: list_induct2) (simp_all add: interpolate_def)

lemma soft_update_outside:
  "a \<notin> set target_net \<Longrightarrow> fst (soft_update h target_net current_net tau) a = h a"
proof (induction h target_net current_net tau rule: soft_update.induct)
  case (1 h tar target_net cur current_net tau)
  show ?case
  proof (cases "tensor_add (tensor_mul (h cur) tau) (tensor_mul (h tar) (1 - tau))")
    case (Inl e)
    then show ?thesis by simp
  next
    case (Inr v)
    from "1.prems" have ne: "a \<noteq> tar" and notin: "a \<notin> set target_net" by auto
    have "fst (soft_update (h(tar := v)) target_net current_net tau) a = (h(tar := v)) a"
      by (rule "1.IH" [OF Inr notin])
    also have "\<dots> = h a" using ne by (rule fun_upd_other)
    finally show ?thesis using Inr by simp
  qed
qed simp_all

lemma soft_update_at:
  assumes "distinct target_net"
    and "set target_net \<inter> set current_net = {}"
    and "same_shapes h target_net current_net"
  shows "snd (soft_update h target_net current_net tau) = None \<and>
         (\<forall>i<length target_net.
            fst (soft_update h target_net current_net tau) (target_net ! i)
            = interpolate tau (h (current_net ! i)) (h (target_net ! i)))"
  using assms
proof (induction h target_net current_net tau rule: soft_update.induct)
  case (1 h tar target_net cur current_net tau)
  let ?v = "interpolate tau (h cur) (h tar)"
  let ?h = "h(tar := ?v)"
  from "1.prems" have len: "length (h cur) = length (h tar)"
    and rest: "list_all2 (\<lambda>t c. length (h t) = length (h c)) target_net current_net"
    by (simp_all add: same_shapes_def)
  have step: "tensor_add (tensor_mul (h cur) tau) (tensor_mul (h tar) (1 - tau)) = Inr ?v"
    by (rule tensor_step_interpolate [OF len])
  have run: "soft_update h (tar # target_net) (cur # current_net) tau
             = soft_update ?h target_net current_net tau"
    by (simp add: step)
  from "1.prems" have notin_t: "tar \<notin> set target_net" and notin_c: "tar \<notin> set current_net"
    and dist: "distinct target_net" and disj: "set target_net \<inter> set current_net = {}"
    by auto
  have lenv: "length ?v = length (h tar)"
    using len by (simp add: interpolate_def)
  have shapes': "same_shapes ?h target_net current_net"
    unfolding same_shapes_def
    using rest notin_t notin_c
    by (auto simp: list_all2_conv_all_nth in_set_conv_nth)
  note IH = "1.IH" [OF step dist disj shapes']
  have at: "\<forall>i<length (tar # target_net).
      fst (soft_update ?h target_net current_net tau) ((tar # target_net) ! i)
      = interpolate tau (h ((cur # current_net) ! i)) (h ((tar # target_net) ! i))"
  proof (intro allI impI)
    fix i assume i: "i < length (tar # target_net)"
    show "fst (soft_update ?h target_net current_net tau) ((tar # target_net) ! i)
      = interpolate tau (h ((cur # current_net) ! i)) (h ((tar # target_net) ! i))"
    proof (cases i)
      case 0
      then show ?thesis using soft_update_outside [OF notin_t, of ?h current_net tau] by simp
    next
      case (Suc j)
      with i have j: "j < length target_net" by simp
      from rest have "length target_net = length current_net" by (rule list_all2_lengthD)
      with j have jc: "j < length current_net" by simp
      have ne_t: "target_net ! j \<noteq> tar" using notin_t j by (metis nth_mem)
      have ne_c: "current_net ! j \<noteq> tar" using notin_c jc by (metis nth_mem)
      from IH j have "fst (soft_update ?h target_net current_net tau) (target_net ! j)
        = interpolate tau (?h (current_net ! j)) (?h (target_net ! j))" by blast
      then show ?thesis using Suc ne_t ne_c by simp
    qed
  qed
  from IH at show ?case unfolding run by blast
qed (simp_all add: same_shapes_def)

subsection \<open>Claims about soft\_update\<close>

text \<open>
  C1. For two parameter lists of equal shapes, held by two independent networks (the
  target is a deep copy, so no tensor is shared and none occurs twice), and every
  \<open>tau\<close>, \<open>soft_update\<close> raises nothing and sets each target parameter elementwise to
  \<open>tau * current + (1 - tau) * target_old\<close>. With \<open>tau = 1\<close> the target becomes exactly
  the current network, with \<open>tau = 0\<close> the target is unchanged.
\<close>

theorem soft_update_interpolates:
  assumes "distinct target_net"
    and "set target_net \<inter> set current_net = {}"
    and "same_shapes h target_net current_net"
    and "i < length target_net"
  shows "snd (soft_update h target_net current_net tau) = None
       \<and> fst (soft_update h target_net current_net tau) (target_net ! i)
         = map2 (\<lambda>c t. tau * c + (1 - tau) * t) (h (current_net ! i)) (h (target_net ! i))
       \<and> fst (soft_update h target_net current_net 1) (target_net ! i) = h (current_net ! i)
       \<and> fst (soft_update h target_net current_net 0) (target_net ! i) = h (target_net ! i)"
proof -
  from assms(3) have "list_all2 (\<lambda>t c. length (h t) = length (h c)) target_net current_net"
    by (simp add: same_shapes_def)
  with assms(4) have len: "length (h (current_net ! i)) = length (h (target_net ! i))"
    by (simp add: list_all2_conv_all_nth)
  note at = soft_update_at [OF assms(1-3)]
  have none: "snd (soft_update h target_net current_net tau) = None" using at by blast
  have gen: "fst (soft_update h target_net current_net tau) (target_net ! i)
         = map2 (\<lambda>c t. tau * c + (1 - tau) * t) (h (current_net ! i)) (h (target_net ! i))"
    using at assms(4) by (simp add: interpolate_def)
  have one: "fst (soft_update h target_net current_net 1) (target_net ! i) = h (current_net ! i)"
    using at [of 1] assms(4) interpolate_one [OF len] by simp
  have zero: "fst (soft_update h target_net current_net 0) (target_net ! i) = h (target_net ! i)"
    using at [of 0] assms(4) interpolate_zero [OF len] by simp
  from none gen one zero show ?thesis by blast
qed

text \<open>
  The theorem at a store of four tensors: the target network holds the tensors at
  addresses 0 and 1, the current network those at 2 and 3, and \<open>tau = 1/4\<close>.
\<close>

definition example_store :: store where
  "example_store = (\<lambda>_. [])(0 := [1, 2], 1 := [8], 2 := [3, 4], 3 := [0])"

theorem soft_update_interpolates_witness:
  "distinct [0::nat, 1] \<and> set [0::nat, 1] \<inter> set [2, 3] = {}
   \<and> same_shapes example_store [0, 1] [2, 3] \<and> (1::nat) < length [0::nat, 1]
   \<and> snd (soft_update example_store [0, 1] [2, 3] (1/4)) = None
   \<and> fst (soft_update example_store [0, 1] [2, 3] (1/4)) 1 = [6]
   \<and> fst (soft_update example_store [0, 1] [2, 3] 1) 1 = [0]
   \<and> fst (soft_update example_store [0, 1] [2, 3] 0) 1 = [8]"
proof -
  have d: "distinct [0::nat, 1]" by simp
  have j: "set [0::nat, 1] \<inter> set [2, 3] = {}" by simp
  have s: "same_shapes example_store [0, 1] [2, 3]"
    by (simp add: same_shapes_def example_store_def)
  have i: "(1::nat) < length [0::nat, 1]" by simp
  from soft_update_interpolates [OF d j s i, of "1/4"] d j s i
  show ?thesis by (simp add: example_store_def)
qed

text \<open>
  C10. For every \<open>tau\<close>, the call changes no tensor but the target network's: every
  address outside \<open>target_net\<close> holds what it held before, whether or not the call
  raises. So every parameter of a current network that shares no tensor with the target
  is unchanged.
\<close>

theorem soft_update_frame:
  "(\<forall>a. a \<notin> set target_net \<longrightarrow> fst (soft_update h target_net current_net tau) a = h a)
   \<and> (set target_net \<inter> set current_net = {} \<longrightarrow>
        (\<forall>cur \<in> set current_net. fst (soft_update h target_net current_net tau) cur = h cur))"
proof (intro conjI allI impI ballI)
  fix a assume "a \<notin> set target_net"
  then show "fst (soft_update h target_net current_net tau) a = h a"
    by (rule soft_update_outside)
next
  fix cur assume "set target_net \<inter> set current_net = {}" and "cur \<in> set current_net"
  then have "cur \<notin> set target_net" by blast
  then show "fst (soft_update h target_net current_net tau) cur = h cur"
    by (rule soft_update_outside)
qed

theorem soft_update_frame_witness:
  "(7::nat) \<notin> set [0::nat, 1] \<and> fst (soft_update example_store [0, 1] [2, 3] (1/4)) 7 = []
   \<and> set [0::nat, 1] \<inter> set [2, 3] = {}
   \<and> fst (soft_update example_store [0, 1] [2, 3] (1/4)) 2 = [3, 4]
   \<and> fst (soft_update example_store [0, 1] [2, 3] (1/4)) 3 = [0]
   \<and> fst (soft_update example_store [0, 1] [2, 3] (1/4)) 0 = [3/2, 5/2]"
proof -
  have j: "set [0::nat, 1] \<inter> set [2, 3] = {}" by simp
  have o: "(7::nat) \<notin> set [0::nat, 1]" by simp
  from soft_update_frame [of "[0, 1]" example_store "[2, 3]" "1/4"] j o
  have "fst (soft_update example_store [0, 1] [2, 3] (1/4)) 7 = example_store 7"
    and "fst (soft_update example_store [0, 1] [2, 3] (1/4)) 2 = example_store 2"
    and "fst (soft_update example_store [0, 1] [2, 3] (1/4)) 3 = example_store 3"
    by simp_all
  moreover have "fst (soft_update example_store [0, 1] [2, 3] (1/4)) 0 = [3/2, 5/2]"
    by (simp add: example_store_def tensor_add_def tensor_mul_def)
  ultimately show ?thesis using j o by (simp add: example_store_def)
qed

section \<open>AgentPPO: reward-to-go and advantages\<close>

text \<open>
  \<^verbatim>\<open>buf_reward\<close>, \<^verbatim>\<open>buf_mask\<close> and \<^verbatim>\<open>buf_value\<close> have the shape \<^verbatim>\<open>(buf_len, 1)\<close>: one
  number per step of the trajectory, so each is the list of these numbers.
  \<^verbatim>\<open>torch.empty\<close> allocates without initialising; what the memory held is the
  parameter \<open>junk\<close>.
\<close>

definition torch_empty :: "(nat \<Rightarrow> real) \<Rightarrow> nat \<Rightarrow> tensor" where
  "torch_empty junk n = map junk [0..<n]"

text \<open>An elementwise binary operation on two tensors of one shape.\<close>

definition tensor_zip :: "(real \<Rightarrow> real \<Rightarrow> real) \<Rightarrow> tensor \<Rightarrow> tensor \<Rightarrow> py_error + tensor" where
  "tensor_zip f a b = (if length a = length b then Inr (map2 f a b) else Inl RuntimeError)"

text \<open>\<^verbatim>\<open>range(buf_len - 1, -1, -1)\<close>: the indices from \<open>buf_len - 1\<close> down to 0.\<close>

definition range_down :: "nat \<Rightarrow> nat list" where
  "range_down buf_len = rev [0..<buf_len]"

text \<open>
  \<^verbatim>\<open>
  for i in range(buf_len - 1, -1, -1):
      buf_r_ret[i] = buf_reward[i] + buf_mask[i] * pre_r_ret
      pre_r_ret = buf_r_ret[i]
  \<close>
  The loop state is \<open>(buf_r_ret, pre_r_ret)\<close>. An index past the end of a tensor raises
  IndexError.
\<close>

fun r_ret_loop :: "nat list \<Rightarrow> tensor \<Rightarrow> tensor \<Rightarrow> tensor \<times> real \<Rightarrow> py_error + tensor \<times> real" where
  "r_ret_loop [] buf_reward buf_mask (buf_r_ret, pre_r_ret) = Inr (buf_r_ret, pre_r_ret)"
| "r_ret_loop (i # idx) buf_reward buf_mask (buf_r_ret, pre_r_ret) =
     (if i < length buf_reward \<and> i < length buf_mask \<and> i < length buf_r_ret then
        let r = buf_reward ! i + buf_mask ! i * pre_r_ret
        in r_ret_loop idx buf_reward buf_mask (buf_r_ret[i := r], r)
      else Inl IndexError)"

text \<open>
  \<^verbatim>\<open>(buf_adv - buf_adv.mean(dim=0)) / (buf_adv.std(dim=0) + 1e-5)\<close>, with the unbiased
  standard deviation. PyTorch's mean of no element and standard deviation of fewer
  than two elements are not-a-number, and so is then every element of the result:
  \<open>None\<close> stands for that tensor.
\<close>

definition mean :: "tensor \<Rightarrow> real" where
  "mean xs = sum_list xs / real (length xs)"

definition std :: "tensor \<Rightarrow> real" where
  "std xs = sqrt (sum_list (map (\<lambda>x. (x - mean xs)\<^sup>2) xs) / (real (length xs) - 1))"

definition standardize :: "tensor \<Rightarrow> tensor option" where
  "standardize buf_adv =
     (if length buf_adv < 2 then None
      else Some (map (\<lambda>x. (x - mean buf_adv) / (std buf_adv + 1 / 100000)) buf_adv))"

text \<open>
  \<^verbatim>\<open>compute_reward_adv\<close> up to and including
  \<^verbatim>\<open>buf_adv = buf_r_ret - (buf_mask * buf_value)\<close>: the reward-to-go and the advantage
  before it is standardised.
\<close>

definition reward_adv_raw :: "(nat \<Rightarrow> real) \<Rightarrow> nat \<Rightarrow> tensor \<Rightarrow> tensor \<Rightarrow> tensor \<Rightarrow> py_error + tensor \<times> tensor" where
  "reward_adv_raw junk buf_len buf_reward buf_mask buf_value =
     (case r_ret_loop (range_down buf_len) buf_reward buf_mask
             (torch_empty junk (length buf_reward), 0) of
        Inl e \<Rightarrow> Inl e
      | Inr (buf_r_ret, pre_r_ret) \<Rightarrow>
          (case tensor_zip (*) buf_mask buf_value of
             Inl e \<Rightarrow> Inl e
           | Inr mv \<Rightarrow>
               (case tensor_zip (-) buf_r_ret mv of
                  Inl e \<Rightarrow> Inl e
                | Inr buf_adv \<Rightarrow> Inr (buf_r_ret, buf_adv))))"

definition compute_reward_adv :: "(nat \<Rightarrow> real) \<Rightarrow> nat \<Rightarrow> tensor \<Rightarrow> tensor \<Rightarrow> tensor \<Rightarrow> py_error + tensor \<times> tensor option" where
  "compute_reward_adv junk buf_len buf_reward buf_mask buf_value =
     (case reward_adv_raw junk buf_len buf_reward buf_mask buf_value of
        Inl e \<Rightarrow> Inl e
      | Inr (buf_r_ret, buf_adv) \<Rightarrow> Inr (buf_r_ret, standardize buf_adv))"

text \<open>
  \<^verbatim>\<open>
  for i in range(buf_len - 1, -1, -1):
      buf_r_ret[i] = buf_reward[i] + buf_mask[i] * pre_r_ret
      pre_r_ret = buf_r_ret[i]
      buf_adv[i] = buf_reward[i] + buf_mask[i] * pre_adv - buf_value[i]
      pre_adv = buf_value[i] + buf_adv[i] * self.lambda_gae_adv
  \<close>
  The loop state is \<open>(buf_r_ret, pre_r_ret, buf_adv, pre_adv)\<close>.
\<close>

fun gae_loop :: "real \<Rightarrow> nat list \<Rightarrow> tensor \<Rightarrow> tensor \<Rightarrow> tensor \<Rightarrow> tensor \<times> real \<times> tensor \<times> real
    \<Rightarrow> py_error + tensor \<times> real \<times> tensor \<times> real" where
  "gae_loop lambda_gae_adv [] buf_reward buf_mask buf_value st = Inr st"
| "gae_loop lambda_gae_adv (i # idx) buf_reward buf_mask buf_value
       (buf_r_ret, pre_r_ret, buf_adv, pre_adv) =
     (if i < length buf_reward \<and> i < length buf_mask \<and> i < length buf_r_ret then
        let r = buf_reward ! i + buf_mask ! i * pre_r_ret
        in if i < length buf_adv \<and> i < length buf_value then
             let a = buf_reward ! i + buf_mask ! i * pre_adv - buf_value ! i
             in gae_loop lambda_gae_adv idx buf_reward buf_mask buf_value
                  (buf_r_ret[i := r], r, buf_adv[i := a], buf_value ! i + a * lambda_gae_adv)
           else Inl IndexError
      else Inl IndexError)"

text \<open>\<^verbatim>\<open>compute_reward_gae\<close> up to the end of its loop, and as a whole.\<close>

definition reward_gae_raw :: "real \<Rightarrow> (nat \<Rightarrow> real) \<Rightarrow> (nat \<Rightarrow> real) \<Rightarrow> nat \<Rightarrow> tensor \<Rightarrow> tensor \<Rightarrow> tensor
    \<Rightarrow> py_error + tensor \<times> tensor" where
  "reward_gae_raw lambda_gae_adv junk junk' buf_len buf_reward buf_mask buf_value =
     (case gae_loop lambda_gae_adv (range_down buf_len) buf_reward buf_mask buf_value
             (torch_empty junk (length buf_reward), 0,
              torch_empty junk' (length buf_reward), 0) of
        Inl e \<Rightarrow> Inl e
      | Inr (buf_r_ret, pre_r_ret, buf_adv, pre_adv) \<Rightarrow> Inr (buf_r_ret, buf_adv))"

definition compute_reward_gae :: "real \<Rightarrow> (nat \<Rightarrow> real) \<Rightarrow> (nat \<Rightarrow> real) \<Rightarrow> nat \<Rightarrow> tensor \<Rightarrow> tensor \<Rightarrow> tensor
    \<Rightarrow> py_error + tensor \<times> tensor option" where
  "compute_reward_gae lambda_gae_adv junk junk' buf_len buf_reward buf_mask buf_value =
     (case reward_gae_raw lambda_gae_adv junk junk' buf_len buf_reward buf_mask buf_value of
        Inl e \<Rightarrow> Inl e
      | Inr (buf_r_ret, buf_adv) \<Rightarrow> Inr (buf_r_ret, standardize buf_adv))"

subsection \<open>Claim about the two recursions\<close>

lemma range_down_3: "range_down 3 = [2, 1, 0]"
  by (simp add: range_down_def upt_rec numeral_eq_Suc)

lemma torch_empty_3: "torch_empty junk (length [a, b, c]) = [junk 0, junk 1, junk 2]"
  by (simp add: torch_empty_def upt_rec numeral_eq_Suc)

text \<open>
  C9. On the trajectory of three steps with rewards \<open>[1, 1, 1]\<close>, masks \<open>[1, 1, 0]\<close> and
  values \<open>[0, 0, 0]\<close>, the advantages of the GAE recursion with \<open>lambda = 1\<close>, before they
  are standardised, are those of the plain reward-to-go recursion, \<open>[3, 2, 1]\<close>: they
  differ by 0, which is within \<open>1e-5\<close>.
\<close>

theorem gae_lambda_one_is_reward_to_go:
  "reward_adv_raw junk 3 [1, 1, 1] [1, 1, 0] [0, 0, 0] = Inr ([3, 2, 1], [3, 2, 1])
   \<and> reward_gae_raw 1 junk junk' 3 [1, 1, 1] [1, 1, 0] [0, 0, 0] = Inr ([3, 2, 1], [3, 2, 1])
   \<and> list_all2 (\<lambda>g a. \<bar>g - a\<bar> \<le> 1 / 100000) [3, 2, 1 :: real] [3, 2, 1]"
proof -
  have plain: "reward_adv_raw junk 3 [1, 1, 1] [1, 1, 0] [0, 0, 0] = Inr ([3, 2, 1], [3, 2, 1])"
    unfolding reward_adv_raw_def range_down_3 torch_empty_3
    by (simp add: tensor_zip_def)
  have gae: "reward_gae_raw 1 junk junk' 3 [1, 1, 1] [1, 1, 0] [0, 0, 0]
             = Inr ([3, 2, 1], [3, 2, 1])"
    unfolding reward_gae_raw_def range_down_3 torch_empty_3
    by simp
  have near: "list_all2 (\<lambda>g a. \<bar>g - a\<bar> \<le> 1 / 100000) [3, 2, 1 :: real] [3, 2, 1]"
    by simp
  from plain gae near show ?thesis by blast
qed

section \<open>AgentTD3.update\_net\<close>

text \<open>
  The networks, the optimizers and the replay buffer are collaborators of the agent;
  what \<^verbatim>\<open>update_net\<close> decides is which of them it calls on which iteration. The model
  records these calls in order, each with the loop index \<open>i\<close>:
  \<^item> \<open>Critic_update i\<close>: \<^verbatim>\<open>get_obj_critic\<close>, then \<^verbatim>\<open>zero_grad\<close>, \<^verbatim>\<open>backward\<close> and
    \<^verbatim>\<open>step\<close> of \<^verbatim>\<open>cri_optimizer\<close>;
  \<^item> \<open>Critic_target_soft_update i\<close>: \<^verbatim>\<open>soft_update(self.cri_target, self.cri, tau)\<close>;
  \<^item> \<open>Actor_update i\<close>: the actor objective, then \<^verbatim>\<open>zero_grad\<close>, \<^verbatim>\<open>backward\<close> and
    \<^verbatim>\<open>step\<close> of \<^verbatim>\<open>act_optimizer\<close>;
  \<^item> \<open>Actor_target_soft_update i\<close>: \<^verbatim>\<open>soft_update(self.act_target, self.act, tau)\<close>.
  The agent is initialised and the collaborators raise nothing. The calls around the
  loop, \<^verbatim>\<open>buffer.update_now_len_before_sample()\<close> before it and \<^verbatim>\<open>update_record\<close> after
  it, are on no iteration and are not recorded.
\<close>

datatype event =
    Critic_update nat
  | Critic_target_soft_update nat
  | Actor_update nat
  | Actor_target_soft_update nat

text \<open>Python's \<^verbatim>\<open>int(x)\<close> on a float: truncation toward zero.\<close>

definition py_int :: "real \<Rightarrow> int" where
  "py_int x = (if 0 \<le> x then \<lfloor>x\<rfloor> else \<lceil>x\<rceil>)"

text \<open>
  One iteration of the loop. \<^verbatim>\<open>i % self.update_freq\<close> raises ZeroDivisionError when
  \<^verbatim>\<open>update_freq\<close> is 0, after the critic's update; for other values Python's \<^verbatim>\<open>%\<close> and
  \<open>mod\<close> on \<^typ>\<open>int\<close> agree. The result is the calls made and the exception raised, if any.
\<close>

definition td3_iteration :: "int \<Rightarrow> nat \<Rightarrow> event list \<times> py_error option" where
  "td3_iteration update_freq i =
     (if update_freq = 0 then ([Critic_update i], Some ZeroDivisionError)
      else
        ([Critic_update i]
         @ (if int i mod update_freq = 0 then [Critic_target_soft_update i] else [])
         @ [Actor_update i]
         @ (if int i mod update_freq = 0 then [Actor_target_soft_update i] else []),
         None))"

fun td3_loop :: "int \<Rightarrow> nat list \<Rightarrow> event list \<times> py_error option" where
  "td3_loop update_freq [] = ([], None)"
| "td3_loop update_freq (i # idx) =
     (case td3_iteration update_freq i of
        (ev, Some e) \<Rightarrow> (ev, Some e)
      | (ev, None) \<Rightarrow>
          (case td3_loop update_freq idx of (ev', r) \<Rightarrow> (ev @ ev', r)))"

text \<open>
  \<^verbatim>\<open>
  obj_critic = obj_actor = None
  for i in range(int(target_step * repeat_times)):
      ...
  self.update_record(obj_a=obj_actor.item(), obj_c=obj_critic.item() / 2)
  \<close>
  With no iteration, \<^verbatim>\<open>obj_actor\<close> is still \<^verbatim>\<open>None\<close> after the loop and
  \<^verbatim>\<open>obj_actor.item()\<close> raises AttributeError.
\<close>

definition AgentTD3_update_net :: "int \<Rightarrow> int \<Rightarrow> real \<Rightarrow> event list \<times> py_error option" where
  "AgentTD3_update_net update_freq target_step repeat_times =
     (let n = py_int (real_of_int target_step * repeat_times) in
      case td3_loop update_freq [0..<nat n] of
        (ev, Some e) \<Rightarrow> (ev, Some e)
      | (ev, None) \<Rightarrow> if n \<le> 0 then (ev, Some AttributeError) else (ev, None))"

subsection \<open>Helper lemmas\<close>

lemma td3_loop_events:
  assumes "update_freq \<noteq> 0"
  shows "td3_loop update_freq idx
         = (concat (map (\<lambda>i. fst (td3_iteration update_freq i)) idx), None)"
  using assms by (induction idx) (simp_all add: td3_iteration_def)

lemma td3_iteration_members:
  assumes "update_freq \<noteq> 0"
  shows "Critic_update k \<in> set (fst (td3_iteration update_freq i)) \<longleftrightarrow> k = i"
    and "Actor_update k \<in> set (fst (td3_iteration update_freq i)) \<longleftrightarrow> k = i"
    and "Critic_target_soft_update k \<in> set (fst (td3_iteration update_freq i))
         \<longleftrightarrow> k = i \<and> int i mod update_freq = 0"
    and "Actor_target_soft_update k \<in> set (fst (td3_iteration update_freq i))
         \<longleftrightarrow> k = i \<and> int i mod update_freq = 0"
  using assms by (auto simp: td3_iteration_def)

lemma td3_trace:
  assumes "update_freq \<noteq> 0"
  shows "fst (AgentTD3_update_net update_freq target_step repeat_times)
         = concat (map (\<lambda>i. fst (td3_iteration update_freq i))
             [0..<nat (py_int (real_of_int target_step * repeat_times))])"
  by (simp add: AgentTD3_update_net_def Let_def td3_loop_events [OF assms])

subsection \<open>Claim about the delayed updates\<close>

text \<open>
  C4 as stated fails: the actor is updated on every iteration, not only on every
  \<open>update_freq\<close>-th. With the source's \<open>update_freq = 2\<close> and two iterations, the second
  iteration (\<open>i = 1\<close>, and \<open>1 mod 2 \<noteq> 0\<close>) updates the critic and the actor and soft-updates
  no target.
\<close>

theorem td3_actor_update_counterexample:
  "Actor_update 1 \<in> set (fst (AgentTD3_update_net 2 2 1))
   \<and> fst (AgentTD3_update_net 2 2 1)
   = [Critic_update 0, Critic_target_soft_update 0, Actor_update 0, Actor_target_soft_update 0,
      Critic_update 1, Actor_update 1]
   \<and> (1::int) mod 2 \<noteq> 0"
  by (simp add: AgentTD3_update_net_def py_int_def td3_iteration_def upt_rec numeral_eq_Suc)

text \<open>
  C4 amended. With \<open>n = int(target_step * repeat_times)\<close> and \<open>update_freq\<close> not 0, the
  critic and the actor are both updated on every one of the iterations \<open>0, \<dots>, n - 1\<close>
  (and on no other), while each target network is soft-updated on exactly the
  iterations \<open>i < n\<close> with \<open>i mod update_freq = 0\<close>.
\<close>

theorem td3_delayed_soft_updates:
  assumes "update_freq \<noteq> 0"
    and "n = py_int (real_of_int target_step * repeat_times)"
    and "tr = fst (AgentTD3_update_net update_freq target_step repeat_times)"
  shows "(Critic_update i \<in> set tr \<longleftrightarrow> int i < n)
       \<and> (Actor_update i \<in> set tr \<longleftrightarrow> int i < n)
       \<and> (Critic_target_soft_update i \<in> set tr \<longleftrightarrow> int i < n \<and> int i mod update_freq = 0)
       \<and> (Actor_target_soft_update i \<in> set tr \<longleftrightarrow> int i < n \<and> int i mod update_freq = 0)"
proof -
  have tr: "tr = concat (map (\<lambda>i. fst (td3_iteration update_freq i)) [0..<nat n])"
    using assms(2,3) td3_trace [OF assms(1)] by simp
  have lt: "i < nat n \<longleftrightarrow> int i < n" by auto
  show ?thesis
    unfolding tr using lt by (auto simp: td3_iteration_members [OF assms(1)])
qed

theorem td3_delayed_soft_updates_witness:
  "(2::int) \<noteq> 0 \<and> (5::int) = py_int (real_of_int 2 * (5/2))
   \<and> Critic_update 3 \<in> set (fst (AgentTD3_update_net 2 2 (5/2)))
   \<and> Actor_update 3 \<in> set (fst (AgentTD3_update_net 2 2 (5/2)))
   \<and> Critic_target_soft_update 3 \<notin> set (fst (AgentTD3_update_net 2 2 (5/2)))
   \<and> Actor_target_soft_update 3 \<notin> set (fst (AgentTD3_update_net 2 2 (5/2)))
   \<and> Critic_target_soft_update 4 \<in> set (fst (AgentTD3_update_net 2 2 (5/2)))
   \<and> Actor_target_soft_update 4 \<in> set (fst (AgentTD3_update_net 2 2 (5/2)))
   \<and> Critic_update 5 \<notin> set (fst (AgentTD3_update_net 2 2 (5/2)))"
proof -
  have f: "(2::int) \<noteq> 0" by simp
  have n: "(5::int) = py_int (real_of_int 2 * (5/2))" by (simp add: py_int_def)
  note th = td3_delayed_soft_updates [OF f n refl]
  from th [of 3] th [of 4] th [of 5] f n show ?thesis by simp
qed

section \<open>Agents: fields and initialisation\<close>

text \<open>
  A network is an object with identity; \<open>ref\<close> is that identity. The classes of the
  networks (\<^verbatim>\<open>QNet\<close>, \<^verbatim>\<open>QNetTwin\<close>, \<^verbatim>\<open>Actor\<close>, \<dots>) belong to \<^verbatim>\<open>ray_elegantrl.net\<close>, so
  the object a constructor or \<^verbatim>\<open>deepcopy\<close> returns is a parameter of \<^verbatim>\<open>init\<close>. An Adam
  optimizer is given by the network whose \<^verbatim>\<open>parameters()\<close> it was built on.
\<close>

type_synonym ref = nat

datatype loss = MSELoss | SmoothL1Loss

datatype reduction = Reduce_none | Reduce_mean

datatype objective = Get_obj_critic_raw | Get_obj_critic_per

record agent =
  learning_rate :: real
  soft_update_tau :: real
  act :: "ref option"
  act_target :: "ref option"
  cri :: "ref option"
  cri_target :: "ref option"
  act_optimizer :: "ref option"
  cri_optimizer :: "ref option"
  criterion :: "(loss \<times> reduction) option"
  get_obj_critic :: "objective option"
  explore_rate :: real
  action_dim :: "nat option"

text \<open>
  \<^verbatim>\<open>AgentBase.__init__(args=None)\<close> sets every network, optimizer and function field to
  \<^verbatim>\<open>None\<close>. \<^verbatim>\<open>AgentDQN.__init__\<close> adds \<^verbatim>\<open>explore_rate = 0.1\<close> and
  \<^verbatim>\<open>action_dim = None\<close>; \<^verbatim>\<open>AgentDoubleDQN.__init__\<close> and \<^verbatim>\<open>AgentDuelingDQN.__init__\<close>
  then set \<^verbatim>\<open>explore_rate = 0.25\<close>, and \<^verbatim>\<open>AgentD3QN.__init__\<close> changes nothing more.
\<close>

definition AgentBase_new :: agent where
  "AgentBase_new =
     \<lparr> learning_rate = 1 / 10000, soft_update_tau = 1 / 2 ^ 8,
       act = None, act_target = None, cri = None, cri_target = None,
       act_optimizer = None, cri_optimizer = None, criterion = None,
       get_obj_critic = None, explore_rate = 0, action_dim = None \<rparr>"

definition AgentDQN_new :: agent where
  "AgentDQN_new = AgentBase_new \<lparr> explore_rate := 1 / 10, action_dim := None \<rparr>"

definition AgentDoubleDQN_new :: agent where
  "AgentDoubleDQN_new = AgentDQN_new \<lparr> explore_rate := 1 / 4 \<rparr>"

definition AgentD3QN_new :: agent where
  "AgentD3QN_new = AgentDoubleDQN_new"

text \<open>
  \<^verbatim>\<open>
  def init(self, net_dim, state_dim, action_dim, if_per=False):   # AgentDQN
      self.action_dim = action_dim
      self.cri = QNet(net_dim, state_dim, action_dim).to(self.device)
      self.cri_target = deepcopy(self.cri)
      self.cri_optimizer = torch.optim.Adam(self.cri.parameters(), lr=self.learning_rate)
      self.act = self.cri
      self.criterion = torch.nn.MSELoss(reduction='none' if if_per else 'mean')
      if if_per: self.get_obj_critic = self.get_obj_critic_per
      else:      self.get_obj_critic = self.get_obj_critic_raw
  \<close>
  \<open>net\<close> is the object \<^verbatim>\<open>QNet(...)\<close> returns and \<open>net_copy\<close> the one \<^verbatim>\<open>deepcopy\<close> returns.
  \<^verbatim>\<open>act_target\<close> is not assigned.
\<close>

definition AgentDQN_init :: "agent \<Rightarrow> ref \<Rightarrow> ref \<Rightarrow> nat \<Rightarrow> bool \<Rightarrow> agent" where
  "AgentDQN_init self net net_copy adim if_per =
     self \<lparr> action_dim := Some adim,
            cri := Some net,
            cri_target := Some net_copy,
            cri_optimizer := Some net,
            act := Some net,
            criterion := Some (MSELoss, if if_per then Reduce_none else Reduce_mean),
            get_obj_critic := Some (if if_per then Get_obj_critic_per else Get_obj_critic_raw) \<rparr>"

text \<open>
  \<^verbatim>\<open>
  def init(self, net_dim, state_dim, action_dim, if_per=False):   # AgentDoubleDQN
      self.action_dim = action_dim
      self.cri = QNetTwin(net_dim, state_dim, action_dim).to(self.device)
      self.cri_target = deepcopy(self.cri)
      self.cri_optimizer = torch.optim.Adam(self.act.parameters(), lr=self.learning_rate)

      self.act = self.cri
      self.criterion = torch.nn.SmoothL1Loss(reduction='none' if if_per else 'mean')
      self.get_obj_critic = self.get_obj_critic_per if if_per else self.get_obj_critic_raw
  \<close>
  The optimizer is built on \<^verbatim>\<open>self.act.parameters()\<close> before \<^verbatim>\<open>self.act\<close> is assigned:
  on \<^verbatim>\<open>None\<close> the attribute access raises AttributeError, and otherwise the optimizer
  holds the parameters of the network \<^verbatim>\<open>self.act\<close> named before the call. The
  assignments made before the exception stay. The result is the agent as the call
  leaves it, with the exception raised, if any.
\<close>

definition AgentDoubleDQN_init :: "agent \<Rightarrow> ref \<Rightarrow> ref \<Rightarrow> nat \<Rightarrow> bool \<Rightarrow> agent \<times> py_error option" where
  "AgentDoubleDQN_init self net net_copy adim if_per =
     (let self1 = self \<lparr> action_dim := Some adim, cri := Some net, cri_target := Some net_copy \<rparr>
      in case act self1 of
           None \<Rightarrow> (self1, Some AttributeError)
         | Some old_act \<Rightarrow>
             (self1 \<lparr> cri_optimizer := Some old_act,
                      act := cri self1,
                      criterion := Some (SmoothL1Loss, if if_per then Reduce_none else Reduce_mean),
                      get_obj_critic :=
                        Some (if if_per then Get_obj_critic_per else Get_obj_critic_raw) \<rparr>,
              None))"

text \<open>
  \<^verbatim>\<open>
  def init(self, net_dim, state_dim, action_dim, if_per=False):   # AgentD3QN
      self.action_dim = action_dim
      self.cri = QNetTwinDuel(net_dim, state_dim, action_dim).to(self.device)
      self.cri_target = deepcopy(self.cri)
      self.act = self.cri
      self.criterion = ...
      self.cri_optimizer = torch.optim.Adam(self.act.parameters(), lr=self.learning_rate)
      self.criterion = torch.nn.SmoothL1Loss(reduction='none' if if_per else 'mean')
      self.get_obj_critic = self.get_obj_critic_per if if_per else self.get_obj_critic_raw
  \<close>
  Here \<^verbatim>\<open>self.act\<close> is assigned before the optimizer is built.
\<close>

definition AgentD3QN_init :: "agent \<Rightarrow> ref \<Rightarrow> ref \<Rightarrow> nat \<Rightarrow> bool \<Rightarrow> agent \<times> py_error option" where
  "AgentD3QN_init self net net_copy adim if_per =
     (let self1 = self \<lparr> action_dim := Some adim, cri := Some net, cri_target := Some net_copy \<rparr>;
          self2 = self1 \<lparr> act := cri self1 \<rparr>
      in case act self2 of
           None \<Rightarrow> (self2, Some AttributeError)
         | Some a \<Rightarrow>
             (self2 \<lparr> cri_optimizer := Some a,
                      criterion := Some (SmoothL1Loss, if if_per then Reduce_none else Reduce_mean),
                      get_obj_critic :=
                        Some (if if_per then Get_obj_critic_per else Get_obj_critic_raw) \<rparr>,
              None))"

subsection \<open>Claim about AgentDoubleDQN.init\<close>

text \<open>
  C8 fails on the code. On a freshly constructed \<^verbatim>\<open>AgentDoubleDQN\<close>, \<^verbatim>\<open>init\<close> raises
  AttributeError where it builds the critic's optimizer, since \<^verbatim>\<open>self.act\<close> is still
  \<^verbatim>\<open>None\<close>: no optimizer is built and \<^verbatim>\<open>self.act\<close> is never made an alias of the critic.
  On an agent whose \<^verbatim>\<open>act\<close> already names a network \<open>old\<close>, \<^verbatim>\<open>init\<close> returns, and the
  optimizer holds the parameters of \<open>old\<close>, not of the new critic. \<^verbatim>\<open>AgentD3QN.init\<close>,
  which assigns \<^verbatim>\<open>self.act\<close> first, does what the claim says.
\<close>

theorem AgentDoubleDQN_init_fresh_raises:
  "snd (AgentDoubleDQN_init AgentDoubleDQN_new net net_copy adim if_per) = Some AttributeError
   \<and> cri_optimizer (fst (AgentDoubleDQN_init AgentDoubleDQN_new net net_copy adim if_per)) = None
   \<and> act (fst (AgentDoubleDQN_init AgentDoubleDQN_new net net_copy adim if_per)) = None
   \<and> cri (fst (AgentDoubleDQN_init AgentDoubleDQN_new net net_copy adim if_per)) = Some net"
  by (simp add: AgentDoubleDQN_init_def AgentDoubleDQN_new_def AgentDQN_new_def
      AgentBase_new_def Let_def)

lemma AgentDoubleDQN_init_again_binds_old_network:
  "cri_optimizer (fst (AgentDoubleDQN_init (self \<lparr> act := Some old \<rparr>) net net_copy adim if_per))
     = Some old
   \<and> cri (fst (AgentDoubleDQN_init (self \<lparr> act := Some old \<rparr>) net net_copy adim if_per))
     = Some net"
  by (simp add: AgentDoubleDQN_init_def Let_def)

lemma AgentD3QN_init_binds_shared_network:
  "AgentD3QN_init AgentD3QN_new net net_copy adim if_per = (self', r) \<Longrightarrow>
   r = None \<and> cri_optimizer self' = Some net \<and> act self' = Some net \<and> cri self' = Some net"
  by (auto simp: AgentD3QN_init_def Let_def)

section \<open>Critic objectives of the value-based agents\<close>

text \<open>
  What a network computes is given by its class in \<^verbatim>\<open>ray_elegantrl.net\<close>, so it is a
  parameter: for a network \<open>r\<close> and a batch of states,
  \<^item> \<open>forward r states\<close> is \<^verbatim>\<open>r(states)\<close>, one row of numbers per state;
  \<^item> \<open>forward2 r states x\<close> is \<^verbatim>\<open>r(states, x)\<close>, one number per state;
  \<^item> \<open>get_q1_q2 r states\<close> is \<^verbatim>\<open>r.get_q1_q2(states)\<close> of a twin network, two tables of
    one row per state;
  \<^item> \<open>get_q1_q2_sa r states actions\<close> is \<^verbatim>\<open>r.get_q1_q2(states, actions)\<close> of a twin
    critic, two numbers per state;
  \<^item> \<open>get_action r states noise\<close> is \<^verbatim>\<open>r.get_action(states, noise)\<close>.
  Each may raise (a wrong number of arguments, a wrong shape).
\<close>

record 's networks =
  forward :: "ref \<Rightarrow> 's list \<Rightarrow> py_error + real list list"
  forward2 :: "ref \<Rightarrow> 's list \<Rightarrow> real list list \<Rightarrow> py_error + tensor"
  get_q1_q2 :: "ref \<Rightarrow> 's list \<Rightarrow> py_error + real list list \<times> real list list"
  get_q1_q2_sa :: "ref \<Rightarrow> 's list \<Rightarrow> real list list \<Rightarrow> py_error + tensor \<times> tensor"
  get_action :: "ref \<Rightarrow> 's list \<Rightarrow> real \<Rightarrow> py_error + real list list"

text \<open>
  What \<^verbatim>\<open>buffer.sample_batch(batch_size)\<close> returns: \<^verbatim>\<open>reward\<close>, \<^verbatim>\<open>mask\<close> and \<^verbatim>\<open>action\<close>
  with one number per transition (for a continuous action, \<open>actions\<close> holds its row), the
  states, and the importance weights when the buffer is prioritised: a tuple of five or
  of six.
\<close>

record 's batch =
  reward :: tensor
  mask :: tensor
  action :: tensor
  actions :: "real list list"
  state :: "'s list"
  next_s :: "'s list"
  is_weights :: "tensor option"

text \<open>Sequencing with exceptions: the first \<open>Inl\<close> ends the computation.\<close>

definition and_then :: "'e + 'a \<Rightarrow> ('a \<Rightarrow> 'e + 'b) \<Rightarrow> 'e + 'b" where
  "and_then m f = (case m of Inl e \<Rightarrow> Inl e | Inr x \<Rightarrow> f x)"

text \<open>Calling or reading an attribute of a field that may hold \<^verbatim>\<open>None\<close>.\<close>

definition callable :: "'a option \<Rightarrow> py_error + 'a" where
  "callable f = (case f of None \<Rightarrow> Inl TypeError | Some x \<Rightarrow> Inr x)"

definition attribute_of :: "'a option \<Rightarrow> py_error + 'a" where
  "attribute_of f = (case f of None \<Rightarrow> Inl AttributeError | Some x \<Rightarrow> Inr x)"

text \<open>
  The value of a loss function: a number with \<^verbatim>\<open>reduction='mean'\<close>, a tensor with
  \<^verbatim>\<open>reduction='none'\<close>. \<^verbatim>\<open>MSELoss\<close> is the squared difference; \<^verbatim>\<open>SmoothL1Loss\<close> (with
  its default \<^verbatim>\<open>beta = 1\<close>) is half of it where the difference is below 1 and the
  absolute difference less one half elsewhere. PyTorch's mean of no element is
  not-a-number, \<^const>\<open>mean\<close> gives 0 there; batches have at least one transition.
\<close>

datatype loss_value = Scalar real | Elementwise tensor

fun loss_at :: "loss \<Rightarrow> real \<Rightarrow> real \<Rightarrow> real" where
  "loss_at MSELoss x y = (x - y)\<^sup>2"
| "loss_at SmoothL1Loss x y = (if \<bar>x - y\<bar> < 1 then (x - y)\<^sup>2 / 2 else \<bar>x - y\<bar> - 1 / 2)"

definition apply_criterion :: "loss \<times> reduction \<Rightarrow> tensor \<Rightarrow> tensor \<Rightarrow> py_error + loss_value" where
  "apply_criterion c q_value q_label =
     and_then (tensor_zip (loss_at (fst c)) q_value q_label)
       (\<lambda>l. Inr (case snd c of Reduce_mean \<Rightarrow> Scalar (mean l) | Reduce_none \<Rightarrow> Elementwise l))"

text \<open>\<^verbatim>\<open>(l * is_weights).mean()\<close>; a number \<open>l\<close> multiplies every weight.\<close>

definition weighted_mean :: "loss_value \<Rightarrow> tensor \<Rightarrow> py_error + real" where
  "weighted_mean l w =
     (case l of
        Scalar x \<Rightarrow> Inr (mean (tensor_mul w x))
      | Elementwise t \<Rightarrow> and_then (tensor_zip (*) t w) (\<lambda>p. Inr (mean p)))"

text \<open>\<^verbatim>\<open>a + b\<close> on two loss values.\<close>

definition loss_add :: "loss_value \<Rightarrow> loss_value \<Rightarrow> py_error + loss_value" where
  "loss_add a b =
     (case (a, b) of
        (Scalar x, Scalar y) \<Rightarrow> Inr (Scalar (x + y))
      | (Elementwise s, Elementwise t) \<Rightarrow> and_then (tensor_add s t) (\<lambda>u. Inr (Elementwise u))
      | (Scalar x, Elementwise t) \<Rightarrow> Inr (Elementwise (map (\<lambda>y. x + y) t))
      | (Elementwise s, Scalar y) \<Rightarrow> Inr (Elementwise (map (\<lambda>x. x + y) s)))"

text \<open>
  \<^verbatim>\<open>q.gather(1, action.type(torch.long))\<close>: of each row the entry at the transition's
  action, cast to an integer by truncation. An index outside the row raises.
\<close>

fun gather :: "real list list \<Rightarrow> tensor \<Rightarrow> py_error + tensor" where
  "gather [] [] = Inr []"
| "gather (row # q) (a # as) =
     (if 0 \<le> py_int a \<and> nat (py_int a) < length row then
        and_then (gather q as) (\<lambda>rest. Inr (row ! nat (py_int a) # rest))
      else Inl RuntimeError)"
| "gather _ _ = Inl RuntimeError"

text \<open>\<^verbatim>\<open>q_label = reward + mask * next_q\<close>.\<close>

definition q_label_of :: "tensor \<Rightarrow> tensor \<Rightarrow> tensor \<Rightarrow> py_error + tensor" where
  "q_label_of rew msk next_q = and_then (tensor_zip (*) msk next_q) (tensor_add rew)"

text \<open>
  \<^verbatim>\<open>
  def get_obj_critic_raw(self, buffer, batch_size):          # AgentDQN
      with torch.no_grad():
          reward, mask, action, state, next_s = buffer.sample_batch(batch_size)
          next_q = self.cri_target(next_s, self.act_target(next_s))
          q_label = reward + mask * next_q
      q_value = self.cri(state).gather(1, action.type(torch.long))
      obj_critic = self.criterion(q_value, q_label)
      return obj_critic, q_value
  \<close>
  Unpacking a tuple of six into five names raises ValueError. Python evaluates the
  argument \<^verbatim>\<open>self.act_target(next_s)\<close> before it calls \<^verbatim>\<open>self.cri_target\<close>; calling
  \<^verbatim>\<open>None\<close> raises TypeError.
\<close>

definition AgentDQN_get_obj_critic_raw ::
    "'s networks \<Rightarrow> agent \<Rightarrow> 's batch \<Rightarrow> py_error + loss_value \<times> tensor" where
  "AgentDQN_get_obj_critic_raw nets self b =
     (if is_weights b \<noteq> None then Inl ValueError
      else
        and_then (callable (act_target self)) (\<lambda>a_tar.
        and_then (forward nets a_tar (next_s b)) (\<lambda>next_a.
        and_then (callable (cri_target self)) (\<lambda>c_tar.
        and_then (forward2 nets c_tar (next_s b) next_a) (\<lambda>next_q.
        and_then (q_label_of (reward b) (mask b) next_q) (\<lambda>q_label.
        and_then (callable (cri self)) (\<lambda>c.
        and_then (forward nets c (state b)) (\<lambda>q.
        and_then (gather q (action b)) (\<lambda>q_value.
        and_then (callable (criterion self)) (\<lambda>crit.
        and_then (apply_criterion crit q_value q_label) (\<lambda>obj_critic.
        Inr (obj_critic, q_value))))))))))))"

text \<open>
  \<^verbatim>\<open>
  def get_obj_critic_per(self, buffer, batch_size):          # AgentDQN
      with torch.no_grad():
          reward, mask, action, state, next_s, is_weights = buffer.sample_batch(batch_size)
          next_q = self.cri_target(next_s, self.act_target(next_s))
          q_label = reward + mask * next_q
      q_value = self.cri(state).gather(1, action.type(torch.long))
      obj_critic = (self.criterion(q_value, q_label) * is_weights).mean()
      return obj_critic, q_value
  \<close>
\<close>

definition AgentDQN_get_obj_critic_per ::
    "'s networks \<Rightarrow> agent \<Rightarrow> 's batch \<Rightarrow> py_error + real \<times> tensor" where
  "AgentDQN_get_obj_critic_per nets self b =
     (case is_weights b of
        None \<Rightarrow> Inl ValueError
      | Some w \<Rightarrow>
        and_then (callable (act_target self)) (\<lambda>a_tar.
        and_then (forward nets a_tar (next_s b)) (\<lambda>next_a.
        and_then (callable (cri_target self)) (\<lambda>c_tar.
        and_then (forward2 nets c_tar (next_s b) next_a) (\<lambda>next_q.
        and_then (q_label_of (reward b) (mask b) next_q) (\<lambda>q_label.
        and_then (callable (cri self)) (\<lambda>c.
        and_then (forward nets c (state b)) (\<lambda>q.
        and_then (gather q (action b)) (\<lambda>q_value.
        and_then (callable (criterion self)) (\<lambda>crit.
        and_then (apply_criterion crit q_value q_label) (\<lambda>l.
        and_then (weighted_mean l w) (\<lambda>obj_critic.
        Inr (obj_critic, q_value)))))))))))))"

subsection \<open>Claim about the label of the plain DQN agent\<close>

lemma AgentDQN_init_act_target:
  "act_target (AgentDQN_init AgentDQN_new net net_copy adim if_per) = None"
  by (simp add: AgentDQN_init_def AgentDQN_new_def AgentBase_new_def)

text \<open>
  C2 fails on the code. \<^verbatim>\<open>AgentDQN.init\<close> leaves \<^verbatim>\<open>act_target\<close> at \<^verbatim>\<open>None\<close>, and both
  critic objectives call \<^verbatim>\<open>self.act_target(next_s)\<close> to form the label. So on an
  initialised plain DQN agent, with any networks and any batch of the right arity,
  neither path computes a label: both raise TypeError.
\<close>

theorem AgentDQN_get_obj_critic_raises:
  "AgentDQN_get_obj_critic_raw nets (AgentDQN_init AgentDQN_new net net_copy adim False)
     (b \<lparr> is_weights := None \<rparr>) = Inl TypeError
   \<and> AgentDQN_get_obj_critic_per nets (AgentDQN_init AgentDQN_new net net_copy adim True)
     (b \<lparr> is_weights := Some w \<rparr>) = Inl TypeError"
  by (simp add: AgentDQN_get_obj_critic_raw_def AgentDQN_get_obj_critic_per_def
      AgentDQN_init_act_target callable_def and_then_def)

text \<open>
  The arithmetic the two paths would do on the claim's transition, were the label
  reached: \<open>1 + 0.9 * 2 = 2.8\<close>.
\<close>

lemma q_label_of_example: "q_label_of [1] [9 / 10] [2] = Inr [28 / 10]"
  by (simp add: q_label_of_def tensor_zip_def tensor_add_def and_then_def)

section \<open>Critic objectives with prioritised replay: twin critics\<close>

text \<open>
  The replay buffer is a collaborator; the model records the calls an objective makes
  on it, in order: \<^verbatim>\<open>buffer.sample_batch(batch_size)\<close> and
  \<^verbatim>\<open>buffer.td_error_update(td_error)\<close>.
\<close>

datatype buffer_call = Sample_batch nat | Td_error_update tensor

text \<open>
  \<^verbatim>\<open>torch.min(q1, q2)\<close> on two tables of one shape, and \<^verbatim>\<open>.max(dim=1, keepdim=True)[0]\<close>:
  the largest entry of each row; a row of no entry raises.
\<close>

fun table_min :: "real list list \<Rightarrow> real list list \<Rightarrow> py_error + real list list" where
  "table_min [] [] = Inr []"
| "table_min (r1 # q1) (r2 # q2) =
     and_then (tensor_zip min r1 r2) (\<lambda>r. and_then (table_min q1 q2) (\<lambda>q. Inr (r # q)))"
| "table_min _ _ = Inl RuntimeError"

fun row_max :: "real list list \<Rightarrow> py_error + tensor" where
  "row_max [] = Inr []"
| "row_max ([] # q) = Inl RuntimeError"
| "row_max ((x # xs) # q) = and_then (row_max q) (\<lambda>rest. Inr (fold max xs x # rest))"

text \<open>
  \<^verbatim>\<open>
  def get_obj_critic_per(self, buffer, batch_size):          # AgentDoubleDQN, AgentD3QN
      with torch.no_grad():
          reward, mask, action, state, next_s, is_weights = buffer.sample_batch(batch_size)
          next_q = torch.min(*self.cri_target.get_q1_q2(next_s))
          next_q = next_q.max(dim=1, keepdim=True)[0]
          q_label = reward + mask * next_q
      act_int = action.type(torch.long)
      q1, q2 = [qs.gather(1, act_int) for qs in self.act.get_q1_q2(state)]
      obj_critic = ((self.criterion(q1, q_label) + self.criterion(q2, q_label)) * is_weights).mean()
      return obj_critic, q1
  \<close>
  The result is what the call returns or raises, and the calls it made on the buffer.
\<close>

definition AgentDoubleDQN_get_obj_critic_per ::
    "'s networks \<Rightarrow> agent \<Rightarrow> nat \<Rightarrow> 's batch \<Rightarrow> (py_error + real \<times> tensor) \<times> buffer_call list" where
  "AgentDoubleDQN_get_obj_critic_per nets self batch_size b =
     ((case is_weights b of
         None \<Rightarrow> Inl ValueError
       | Some w \<Rightarrow>
         and_then (attribute_of (cri_target self)) (\<lambda>c_tar.
         and_then (get_q1_q2 nets c_tar (next_s b)) (\<lambda>(t1, t2).
         and_then (table_min t1 t2) (\<lambda>m.
         and_then (row_max m) (\<lambda>next_q.
         and_then (q_label_of (reward b) (mask b) next_q) (\<lambda>q_label.
         and_then (attribute_of (act self)) (\<lambda>a.
         and_then (get_q1_q2 nets a (state b)) (\<lambda>(s1, s2).
         and_then (gather s1 (action b)) (\<lambda>q1.
         and_then (gather s2 (action b)) (\<lambda>q2.
         and_then (callable (criterion self)) (\<lambda>crit.
         and_then (apply_criterion crit q1 q_label) (\<lambda>l1.
         and_then (apply_criterion crit q2 q_label) (\<lambda>l2.
         and_then (loss_add l1 l2) (\<lambda>l.
         and_then (weighted_mean l w) (\<lambda>obj_critic.
         Inr (obj_critic, q1)))))))))))))))),
      [Sample_batch batch_size])"

text \<open>
  \<^verbatim>\<open>
  def get_obj_critic_per(self, buffer, batch_size):          # AgentTD3
      with torch.no_grad():
          reward, mask, action, state, next_s, is_weights = buffer.sample_batch(batch_size)
          next_a = self.act_target.get_action(next_s, self.policy_noise)
          next_q = torch.min(*self.cri_target.get_q1_q2(next_s, next_a))
          q_label = reward + mask * next_q
      q1, q2 = self.cri.get_q1_q2(state, action)
      obj_critic = ((self.criterion(q1, q_label) + self.criterion(q2, q_label)) * is_weights).mean()
      td_error = (q_label - torch.min(q1, q2).detach()).abs()
      buffer.td_error_update(td_error)
      return obj_critic, state
  \<close>
\<close>

definition AgentTD3_get_obj_critic_per ::
    "'s networks \<Rightarrow> agent \<Rightarrow> real \<Rightarrow> nat \<Rightarrow> 's batch \<Rightarrow> (py_error + real \<times> 's list) \<times> buffer_call list" where
  "AgentTD3_get_obj_critic_per nets self policy_noise batch_size b =
     (case
        (case is_weights b of
           None \<Rightarrow> Inl ValueError
         | Some w \<Rightarrow>
           and_then (attribute_of (act_target self)) (\<lambda>a_tar.
           and_then (get_action nets a_tar (next_s b) policy_noise) (\<lambda>next_a.
           and_then (attribute_of (cri_target self)) (\<lambda>c_tar.
           and_then (get_q1_q2_sa nets c_tar (next_s b) next_a) (\<lambda>(n1, n2).
           and_then (tensor_zip min n1 n2) (\<lambda>next_q.
           and_then (q_label_of (reward b) (mask b) next_q) (\<lambda>q_label.
           and_then (attribute_of (cri self)) (\<lambda>c.
           and_then (get_q1_q2_sa nets c (state b) (actions b)) (\<lambda>(q1, q2).
           and_then (callable (criterion self)) (\<lambda>crit.
           and_then (apply_criterion crit q1 q_label) (\<lambda>l1.
           and_then (apply_criterion crit q2 q_label) (\<lambda>l2.
           and_then (loss_add l1 l2) (\<lambda>l.
           and_then (weighted_mean l w) (\<lambda>obj_critic.
           and_then (tensor_zip min q1 q2) (\<lambda>q_min.
           and_then (tensor_zip (\<lambda>x y. \<bar>x - y\<bar>) q_label q_min) (\<lambda>td_error.
           Inr (obj_critic, td_error))))))))))))))))) of
        Inl e \<Rightarrow> (Inl e, [Sample_batch batch_size])
      | Inr (obj_critic, td_error) \<Rightarrow>
          (Inr (obj_critic, state b), [Sample_batch batch_size, Td_error_update td_error]))"

subsection \<open>Claim about the priorities pushed by the twin value-based agents\<close>

text \<open>
  A network table for the examples: every twin network answers \<open>Q1 = [[1, 2]]\<close> and
  \<open>Q2 = [[3, 1]]\<close> on a batch of one state, and a batch of one transition with reward 1,
  mask \<open>1/2\<close>, action 0 and importance weight 2.
\<close>

definition example_nets :: "nat networks" where
  "example_nets =
     \<lparr> forward = (\<lambda>r s. Inr [[1, 2]]),
       forward2 = (\<lambda>r s x. Inr [1]),
       get_q1_q2 = (\<lambda>r s. Inr ([[1, 2]], [[3, 1]])),
       get_q1_q2_sa = (\<lambda>r s x. Inr ([1], [3])),
       get_action = (\<lambda>r s n. Inr [[0]]) \<rparr>"

definition example_batch :: "nat batch" where
  "example_batch =
     \<lparr> reward = [1], mask = [1 / 2], action = [0], actions = [[0]],
       state = [0], next_s = [1], is_weights = Some [2] \<rparr>"

text \<open>
  C6 fails on the code. \<^verbatim>\<open>AgentDoubleDQN.get_obj_critic_per\<close>, which \<^verbatim>\<open>AgentD3QN\<close>
  inherits, returns the importance-weighted mean loss and calls the buffer once, to
  sample: it never calls \<^verbatim>\<open>buffer.td_error_update\<close>. On the example, run on an
  initialised D3QN agent, the label is \<open>3/2\<close> and \<open>min(Q1, Q2) = 1\<close>, the loss returned is
  \<open>9/4\<close>, and the priority \<open>|3/2 - 1| = 1/2\<close> is pushed nowhere.
\<close>

theorem AgentDoubleDQN_get_obj_critic_per_pushes_nothing:
  "snd (AgentDoubleDQN_get_obj_critic_per nets self batch_size b) = [Sample_batch batch_size]
   \<and> AgentDoubleDQN_get_obj_critic_per example_nets
        (fst (AgentD3QN_init AgentD3QN_new 0 1 2 True)) 1 example_batch
     = (Inr (9 / 4, [1]), [Sample_batch 1])"
proof -
  have "snd (AgentDoubleDQN_get_obj_critic_per nets self batch_size b) = [Sample_batch batch_size]"
    by (simp add: AgentDoubleDQN_get_obj_critic_per_def)
  moreover have "AgentDoubleDQN_get_obj_critic_per example_nets
        (fst (AgentD3QN_init AgentD3QN_new 0 1 2 True)) 1 example_batch
     = (Inr (9 / 4, [1]), [Sample_batch 1])"
    by (simp add: AgentDoubleDQN_get_obj_critic_per_def AgentD3QN_init_def AgentD3QN_new_def
        AgentDoubleDQN_new_def AgentDQN_new_def AgentBase_new_def Let_def
        example_nets_def example_batch_def and_then_def attribute_of_def callable_def
        tensor_zip_def tensor_add_def tensor_mul_def q_label_of_def apply_criterion_def
        loss_add_def weighted_mean_def mean_def py_int_def power2_eq_square)
  ultimately show ?thesis by blast
qed

text \<open>
  The twin critic of the actor-critic family does push it: when
  \<^verbatim>\<open>AgentTD3.get_obj_critic_per\<close> returns, its last call on the buffer is
  \<^verbatim>\<open>td_error_update\<close>; on the example it pushes \<open>|3/2 - 1| = 1/2\<close>.
\<close>

lemma AgentTD3_get_obj_critic_per_pushes:
  "AgentTD3_get_obj_critic_per nets self policy_noise batch_size b = (Inr r, calls) \<Longrightarrow>
   \<exists>td. calls = [Sample_batch batch_size, Td_error_update td]"
  by (auto simp: AgentTD3_get_obj_critic_per_def split: sum.splits prod.splits)

lemma AgentTD3_get_obj_critic_per_example:
  "snd (AgentTD3_get_obj_critic_per example_nets
          (AgentBase_new \<lparr> act_target := Some 0, cri := Some 1, cri_target := Some 2,
             criterion := Some (SmoothL1Loss, Reduce_none) \<rparr>) (1 / 5) 1 example_batch)
   = [Sample_batch 1, Td_error_update [1 / 2]]"
  by (simp add: AgentTD3_get_obj_critic_per_def AgentBase_new_def
      example_nets_def example_batch_def and_then_def attribute_of_def callable_def
      tensor_zip_def tensor_add_def tensor_mul_def q_label_of_def apply_criterion_def
      loss_add_def weighted_mean_def mean_def power2_eq_square)

section \<open>AgentBase.save\_load\_model\<close>

text \<open>
  The world \<^verbatim>\<open>save_load_model\<close> acts on: the files that hold a saved
  \<^verbatim>\<open>state_dict\<close> (the list of a network's parameter tensors) by path, the
  \<^verbatim>\<open>state_dict\<close> of every network, and the lines printed.
\<close>

record world =
  files :: "string \<rightharpoonup> tensor list"
  state_dict :: "ref \<Rightarrow> tensor list"
  printed :: "string list"

text \<open>
  \<^verbatim>\<open>
  def load_torch_file(network, save_path):
      network_dict = torch.load(save_path, map_location=lambda storage, loc: storage)
      network.load_state_dict(network_dict)
  \<close>
  \<^verbatim>\<open>torch.load\<close> raises on a path with no file, and \<^verbatim>\<open>load_state_dict\<close> raises
  RuntimeError on tensors whose shapes are not the network's.
\<close>

definition load_torch_file :: "world \<Rightarrow> ref \<Rightarrow> string \<Rightarrow> world \<times> py_error option" where
  "load_torch_file w network save_path =
     (case files w save_path of
        None \<Rightarrow> (w, Some RuntimeError)
      | Some network_dict \<Rightarrow>
          if map length network_dict = map length (state_dict w network)
          then (w \<lparr> state_dict := (state_dict w)(network := network_dict) \<rparr>, None)
          else (w, Some RuntimeError))"

text \<open>
  \<^verbatim>\<open>torch.save(network.state_dict(), path)\<close> writes the file anew; in the model the
  directory exists and the write succeeds.
\<close>

definition torch_save :: "world \<Rightarrow> ref \<Rightarrow> string \<Rightarrow> world" where
  "torch_save w network path = w \<lparr> files := (files w)(path \<mapsto> state_dict w network) \<rparr>"

definition print_line :: "world \<Rightarrow> string \<Rightarrow> world" where
  "print_line w line = w \<lparr> printed := printed w @ [line] \<rparr>"

text \<open>
  \<^verbatim>\<open>
  def save_load_model(self, cwd, if_save):
      act_save_path = '{}/actor.pth'.format(cwd)
      cri_save_path = '{}/critic.pth'.format(cwd)
      ...
      if if_save:
          if self.act is not None:
              torch.save(self.act.state_dict(), act_save_path)
          if self.cri is not None:
              torch.save(self.cri.state_dict(), cri_save_path)
      elif (self.act is not None) and os.path.exists(act_save_path):
          load_torch_file(self.act, act_save_path)
          print("Loaded act:", cwd)
      elif (self.cri is not None) and os.path.exists(cri_save_path):
          load_torch_file(self.cri, cri_save_path)
          print("Loaded cri:", cwd)
      else:
          print("FileNotFound when load_model: {}".format(cwd))
  \<close>
  The branches of the \<^verbatim>\<open>if\<close>/\<^verbatim>\<open>elif\<close> chain exclude one another, in the source's
  order.
\<close>

definition save_load_model :: "world \<Rightarrow> agent \<Rightarrow> string \<Rightarrow> bool \<Rightarrow> world \<times> py_error option" where
  "save_load_model w self cwd if_save =
     (let act_save_path = cwd @ ''/actor.pth'';
          cri_save_path = cwd @ ''/critic.pth''
      in
        if if_save then
          (let w1 = (case act self of None \<Rightarrow> w | Some a \<Rightarrow> torch_save w a act_save_path);
               w2 = (case cri self of None \<Rightarrow> w1 | Some c \<Rightarrow> torch_save w1 c cri_save_path)
           in (w2, None))
        else if act self \<noteq> None \<and> files w act_save_path \<noteq> None then
          (case load_torch_file w (the (act self)) act_save_path of
             (w1, Some e) \<Rightarrow> (w1, Some e)
           | (w1, None) \<Rightarrow> (print_line w1 (''Loaded act: '' @ cwd), None))
        else if cri self \<noteq> None \<and> files w cri_save_path \<noteq> None then
          (case load_torch_file w (the (cri self)) cri_save_path of
             (w1, Some e) \<Rightarrow> (w1, Some e)
           | (w1, None) \<Rightarrow> (print_line w1 (''Loaded cri: '' @ cwd), None))
        else (print_line w (''FileNotFound when load_model: '' @ cwd), None))"

subsection \<open>Claim about saving and loading\<close>

text \<open>
  An agent of the actor-critic family: the actor is network 0, the critic network 1.
  The trained world holds their parameters; the fresh world is that of a newly
  initialised agent of the same architecture.
\<close>

definition example_agent :: agent where
  "example_agent = AgentBase_new \<lparr> act := Some 0, cri := Some 1 \<rparr>"

definition trained_world :: world where
  "trained_world =
     \<lparr> files = Map.empty, state_dict = (\<lambda>_. [])(0 := [[1, 2]], 1 := [[3]]), printed = [] \<rparr>"

definition fresh_world :: "(string \<rightharpoonup> tensor list) \<Rightarrow> world" where
  "fresh_world fs =
     \<lparr> files = fs, state_dict = (\<lambda>_. [])(0 := [[7, 7]], 1 := [[9]]), printed = [] \<rparr>"

lemma save_writes_both:
  "act self = Some a \<Longrightarrow> cri self = Some c \<Longrightarrow>
   snd (save_load_model w self cwd True) = None
   \<and> files (fst (save_load_model w self cwd True)) (cwd @ ''/actor.pth'') = Some (state_dict w a)
   \<and> files (fst (save_load_model w self cwd True)) (cwd @ ''/critic.pth'') = Some (state_dict w c)"
  by (simp add: save_load_model_def Let_def torch_save_def)

lemma load_nothing_found:
  "files w (cwd @ ''/actor.pth'') = None \<Longrightarrow> files w (cwd @ ''/critic.pth'') = None \<Longrightarrow>
   save_load_model w self cwd False
   = (w \<lparr> printed := printed w @ [''FileNotFound when load_model: '' @ cwd] \<rparr>, None)"
  by (simp add: save_load_model_def Let_def print_line_def)

text \<open>
  C3 fails on the code. Saving writes both files. Loading them into a fresh agent
  restores the actor and stops there, since the critic's branch is an \<^verbatim>\<open>elif\<close> of the
  actor's: the critic keeps the parameters \<open>[[9]]\<close> it had, not the saved \<open>[[3]]\<close>. And
  with the actor's file missing and the critic's present, the critic is restored while
  nothing reports the missing file.
\<close>

theorem save_load_model_skips_critic:
  "files (fst (save_load_model trained_world example_agent ''m'' True)) ''m/actor.pth''
     = Some [[1, 2]]
   \<and> files (fst (save_load_model trained_world example_agent ''m'' True)) ''m/critic.pth''
     = Some [[3]]
   \<and> save_load_model
        (fresh_world (files (fst (save_load_model trained_world example_agent ''m'' True))))
        example_agent ''m'' False
     = (\<lparr> files = files (fst (save_load_model trained_world example_agent ''m'' True)),
          state_dict = (\<lambda>_. [])(0 := [[1, 2]], 1 := [[9]]),
          printed = [''Loaded act: m''] \<rparr>, None)
   \<and> save_load_model (fresh_world [''m/critic.pth'' \<mapsto> [[3]]]) example_agent ''m'' False
     = (\<lparr> files = [''m/critic.pth'' \<mapsto> [[3]]],
          state_dict = (\<lambda>_. [])(0 := [[7, 7]], 1 := [[3]]),
          printed = [''Loaded cri: m''] \<rparr>, None)"
  by (simp add: save_load_model_def Let_def torch_save_def load_torch_file_def print_line_def
      example_agent_def trained_world_def fresh_world_def AgentBase_new_def fun_upd_twist)

section \<open>AgentDDPG.select\_action\<close>

text \<open>
  \<^verbatim>\<open>
  class OrnsteinUhlenbeckNoise:
      def __init__(self, size, theta=0.15, sigma=0.3, ou_noise=0.0, dt=1e-2): ...
      def __call__(self) -> float:
          noise = self.sigma * np.sqrt(self.dt) * rd.normal(size=self.size)
          self.ou_noise -= self.theta * self.ou_noise * self.dt + noise
          return self.ou_noise
  \<close>
  The draw \<^verbatim>\<open>rd.normal(size=self.size)\<close> is the parameter \<open>normal\<close>, of \<open>size\<close> numbers.
  The initial \<^verbatim>\<open>ou_noise = 0.0\<close> is broadcast against the draw, so the state holds it
  as \<open>size\<close> zeros.
\<close>

record ou_process =
  theta :: real
  sigma :: real
  ou_noise :: tensor
  dt :: real
  size :: nat

definition OrnsteinUhlenbeckNoise_new :: "nat \<Rightarrow> real \<Rightarrow> ou_process" where
  "OrnsteinUhlenbeckNoise_new n s =
     \<lparr> theta = 15 / 100, sigma = s, ou_noise = replicate n 0, dt = 1 / 100, size = n \<rparr>"

definition OrnsteinUhlenbeckNoise_call :: "ou_process \<Rightarrow> tensor \<Rightarrow> (py_error + tensor) \<times> ou_process" where
  "OrnsteinUhlenbeckNoise_call p normal =
     (let noise = map (\<lambda>z. sigma p * sqrt (dt p) * z) normal
      in case tensor_zip (\<lambda>o_n z. o_n - (theta p * o_n * dt p + z)) (ou_noise p) noise of
           Inl e \<Rightarrow> (Inl ValueError, p)
         | Inr o_n \<Rightarrow> (Inr o_n, p \<lparr> ou_noise := o_n \<rparr>))"

text \<open>
  The methods of a NumPy array that take a lower and an upper bound, by name:
  \<^verbatim>\<open>clip\<close>. A NumPy array has no attribute named \<^verbatim>\<open>ratio_clip\<close>; reading an attribute
  an object does not have raises AttributeError.
\<close>

definition ndarray_method :: "string \<Rightarrow> py_error + (tensor \<Rightarrow> real \<Rightarrow> real \<Rightarrow> tensor)" where
  "ndarray_method name =
     (if name = ''clip'' then Inr (\<lambda>a lo hi. map (\<lambda>x. min (max x lo) hi) a)
      else Inl AttributeError)"

text \<open>The first row of a table, \<^verbatim>\<open>t[0]\<close>.\<close>

definition first_row :: "real list list \<Rightarrow> py_error + tensor" where
  "first_row t = (case t of [] \<Rightarrow> Inl IndexError | r # _ \<Rightarrow> Inr r)"

text \<open>
  \<^verbatim>\<open>
  def select_action(self, state) -> np.ndarray:               # AgentDDPG
      states = torch.as_tensor((state,), dtype=torch.float32, device=self.device).detach_()
      action = self.act(states)[0].cpu().numpy()
      return (action + self.ou_noise()).ratio_clip(-1, 1)
  \<close>
  The actor's forward pass and the conversion of its first row to a NumPy array are
  the collaborator's: \<open>forward\<close> answers with the rows, or with the exception of either.
  The result is what the call returns or raises, and the noise process as the call
  leaves it. Adding two arrays of different sizes raises ValueError.
\<close>

definition AgentDDPG_select_action ::
    "'s networks \<Rightarrow> agent \<Rightarrow> ou_process \<Rightarrow> 's \<Rightarrow> tensor \<Rightarrow> (py_error + tensor) \<times> ou_process" where
  "AgentDDPG_select_action nets self ou s normal =
     (case and_then (callable (act self)) (\<lambda>a.
           and_then (forward nets a [s]) first_row) of
        Inl e \<Rightarrow> (Inl e, ou)
      | Inr action_row \<Rightarrow>
          (case OrnsteinUhlenbeckNoise_call ou normal of
             (Inl e, ou') \<Rightarrow> (Inl e, ou')
           | (Inr noise, ou') \<Rightarrow>
               (and_then (case tensor_zip (+) action_row noise of
                            Inl e \<Rightarrow> Inl ValueError
                          | Inr x \<Rightarrow> Inr x) (\<lambda>noisy.
                and_then (ndarray_method ''ratio_clip'') (\<lambda>clip.
                Inr (clip noisy (- 1) 1))), ou')))"

subsection \<open>Claim about the clipped action\<close>

text \<open>
  C5 fails on the code. The sum of the actor's output and the noise sample is formed,
  and then the call reads the attribute \<^verbatim>\<open>ratio_clip\<close> of a NumPy array, which raises
  AttributeError: for every state, \<^verbatim>\<open>select_action\<close> raises and returns no action. On
  the example the actor answers \<open>[1, 2]\<close> for the action of two components and the draw
  is \<open>[1, - 1]\<close>; the noise process has moved on to \<open>[- 0.03, 0.03]\<close> all the same.
\<close>

lemma sqrt_dt: "sqrt (1 / 100) = 1 / 10"
  by (rule real_sqrt_unique) (simp_all add: power2_eq_square)

theorem AgentDDPG_select_action_raises:
  "isl (fst (AgentDDPG_select_action nets self ou s normal))
   \<and> AgentDDPG_select_action example_nets (AgentBase_new \<lparr> act := Some 0 \<rparr>)
        (OrnsteinUhlenbeckNoise_new 2 (3 / 10)) 0 [1, - 1]
     = (Inl AttributeError,
        (OrnsteinUhlenbeckNoise_new 2 (3 / 10)) \<lparr> ou_noise := [- (3 / 100), 3 / 100] \<rparr>)"
proof -
  have "isl (fst (AgentDDPG_select_action nets self ou s normal))"
    by (auto simp: AgentDDPG_select_action_def ndarray_method_def and_then_def
        split: sum.splits prod.splits)
  moreover have "AgentDDPG_select_action example_nets (AgentBase_new \<lparr> act := Some 0 \<rparr>)
        (OrnsteinUhlenbeckNoise_new 2 (3 / 10)) 0 [1, - 1]
     = (Inl AttributeError,
        (OrnsteinUhlenbeckNoise_new 2 (3 / 10)) \<lparr> ou_noise := [- (3 / 100), 3 / 100] \<rparr>)"
    by (simp add: AgentDDPG_select_action_def ndarray_method_def and_then_def callable_def
        first_row_def example_nets_def AgentBase_new_def OrnsteinUhlenbeckNoise_call_def
        OrnsteinUhlenbeckNoise_new_def tensor_zip_def Let_def numeral_2_eq_2 sqrt_dt)
  ultimately show ?thesis by blast
qed

text \<open>What \<^verbatim>\<open>clip(-1, 1)\<close> would have given: every component within \<open>[-1, 1]\<close>.\<close>

lemma ndarray_clip_bounds:
  "ndarray_method ''clip'' = Inr f \<Longrightarrow> x \<in> set (f a (- 1) 1) \<Longrightarrow> - 1 \<le> x \<and> x \<le> 1"
  by (auto simp: ndarray_method_def)

section \<open>gaussian\_kl\<close>

text \<open>
  A matrix is the list of its rows. The operations are PyTorch's: the transpose of the
  last two dimensions, the matrix product \<^verbatim>\<open>@\<close>, \<^verbatim>\<open>det\<close>, \<^verbatim>\<open>inverse\<close> and the trace
  \<^verbatim>\<open>btr\<close>. The product raises on shapes that do not fit, \<^verbatim>\<open>det\<close> and \<^verbatim>\<open>inverse\<close> on a
  matrix that is not square, and \<^verbatim>\<open>inverse\<close> on a singular one. A list of rows does
  not tell the number of columns of a matrix of no row, nor the number of rows of one
  of no column: the matrices of the model have a row and a column at least.
\<close>

type_synonym matrix = "real list list"

definition is_matrix :: "nat \<Rightarrow> nat \<Rightarrow> matrix \<Rightarrow> bool" where
  "is_matrix r c m = (length m = r \<and> list_all (\<lambda>row. length row = c) m)"

text \<open>\<^verbatim>\<open>def bt(m): return m.transpose(dim0=-2, dim1=-1)\<close>\<close>

definition bt :: "matrix \<Rightarrow> matrix" where
  "bt m = transpose m"

text \<open>\<^verbatim>\<open>def btr(m): return m.diagonal(dim1=-2, dim2=-1).sum(-1)\<close>\<close>

definition diagonal :: "matrix \<Rightarrow> real list" where
  "diagonal m = map (\<lambda>(i, row). row ! i) (filter (\<lambda>(i, row). i < length row) (enumerate 0 m))"

definition btr :: "matrix \<Rightarrow> real" where
  "btr m = sum_list (diagonal m)"

text \<open>\<^verbatim>\<open>m.size(-1)\<close>: the number of columns.\<close>

definition cols :: "matrix \<Rightarrow> nat" where
  "cols m = (case m of [] \<Rightarrow> 0 | row # _ \<Rightarrow> length row)"

definition dot :: "real list \<Rightarrow> real list \<Rightarrow> real" where
  "dot u v = sum_list (map2 (*) u v)"

definition matmul :: "matrix \<Rightarrow> matrix \<Rightarrow> py_error + matrix" where
  "matmul a b =
     (if list_all (\<lambda>row. length row = length b) a
         \<and> list_all (\<lambda>row. length row = cols b) b
      then Inr (map (\<lambda>row. map (\<lambda>col. dot row col) (bt b)) a)
      else Inl RuntimeError)"

text \<open>The determinant, expanded along the first row; \<open>drop_col j\<close> removes column \<open>j\<close>.\<close>

definition drop_col :: "nat \<Rightarrow> real list \<Rightarrow> real list" where
  "drop_col j row = take j row @ drop (Suc j) row"

fun det :: "matrix \<Rightarrow> real" where
  "det [] = 1"
| "det (row # rows) =
     sum_list (map (\<lambda>j. (- 1) ^ j * row ! j * det (map (drop_col j) rows)) [0..<length row])"

definition torch_det :: "matrix \<Rightarrow> py_error + real" where
  "torch_det m = (if is_matrix (length m) (length m) m then Inr (det m) else Inl RuntimeError)"

text \<open>The inverse, by cofactors: entry \<open>(i, j)\<close> is the cofactor of \<open>(j, i)\<close> over the determinant.\<close>

definition minor :: "matrix \<Rightarrow> nat \<Rightarrow> nat \<Rightarrow> matrix" where
  "minor m i j = map (drop_col j) (take i m @ drop (Suc i) m)"

definition cofactor :: "matrix \<Rightarrow> nat \<Rightarrow> nat \<Rightarrow> real" where
  "cofactor m i j = (- 1) ^ (i + j) * det (minor m i j)"

definition inverse_matrix :: "matrix \<Rightarrow> py_error + matrix" where
  "inverse_matrix m =
     (if \<not> is_matrix (length m) (length m) m then Inl RuntimeError
      else if det m = 0 then Inl RuntimeError
      else Inr (map (\<lambda>i. map (\<lambda>j. cofactor m j i / det m) [0..<length m]) [0..<length m]))"

text \<open>
  \<^verbatim>\<open>torch.log\<close>: the natural logarithm of a positive number; of 0 or a negative number
  PyTorch gives an infinity or not-a-number, for which \<open>None\<close> stands.
\<close>

definition torch_log :: "real \<Rightarrow> real option" where
  "torch_log x = (if 0 < x then Some (ln x) else None)"

text \<open>
  The body of \<^verbatim>\<open>gaussian_kl\<close> for one element of the batch:
  \<^verbatim>\<open>
  n = A.size(-1)
  sigma_i = A_i @ bt(A_i)
  sigma = A @ bt(A)
  sigma_i_inv = sigma_i.inverse()
  sigma_inv = sigma.inverse()
  inner_mu = ((mu - mu_i).transpose(-2, -1) @ sigma_i_inv @ (mu - mu_i)).squeeze()
  inner_sigma = torch.log(sigma_inv.det() / sigma_i_inv.det()) - n + btr(sigma_i_inv @ sigma_inv)
  \<close>
  with \<open>mu_i\<close> and \<open>mu\<close> as columns. The result is \<open>(inner_mu, inner_sigma)\<close>.
\<close>

definition column :: "real list \<Rightarrow> matrix" where
  "column v = map (\<lambda>x. [x]) v"

definition squeeze :: "matrix \<Rightarrow> py_error + real" where
  "squeeze m = (case m of [[x]] \<Rightarrow> Inr x | _ \<Rightarrow> Inl RuntimeError)"

definition gaussian_kl_inner ::
    "real list \<Rightarrow> real list \<Rightarrow> matrix \<Rightarrow> matrix \<Rightarrow> py_error + real \<times> real option" where
  "gaussian_kl_inner mu_i mu A_i A =
     (let n = cols A in
      and_then (matmul A_i (bt A_i)) (\<lambda>sigma_i.
      and_then (matmul A (bt A)) (\<lambda>sigma.
      and_then (inverse_matrix sigma_i) (\<lambda>sigma_i_inv.
      and_then (inverse_matrix sigma) (\<lambda>sigma_inv.
      and_then (tensor_zip (-) mu mu_i) (\<lambda>d.
      and_then (matmul (bt (column d)) sigma_i_inv) (\<lambda>left.
      and_then (matmul left (column d)) (\<lambda>quad.
      and_then (squeeze quad) (\<lambda>inner_mu.
      and_then (torch_det sigma_inv) (\<lambda>det_inv.
      and_then (torch_det sigma_i_inv) (\<lambda>det_i_inv.
      and_then (matmul sigma_i_inv sigma_inv) (\<lambda>prod.
      Inr (inner_mu,
           map_option (\<lambda>l. l - real n + btr prod) (torch_log (det_inv / det_i_inv)))
      ))))))))))))"

text \<open>
  \<^verbatim>\<open>
  C_mu = 0.5 * torch.mean(inner_mu)
  C_sigma = 0.5 * torch.mean(inner_sigma)
  return C_mu, C_sigma
  \<close>
  over the batch: \<open>mu_i\<close> and \<open>mu\<close> hold one vector and \<open>A_i\<close> and \<open>A\<close> one matrix per
  element of the batch. A mean over a not-a-number is not-a-number.
\<close>

fun gaussian_kl_batch ::
    "real list list \<Rightarrow> real list list \<Rightarrow> matrix list \<Rightarrow> matrix list
     \<Rightarrow> py_error + (real \<times> real option) list" where
  "gaussian_kl_batch [] [] [] [] = Inr []"
| "gaussian_kl_batch (mi # mu_i) (m # mu) (Ai # A_i) (Am # A) =
     and_then (gaussian_kl_inner mi m Ai Am) (\<lambda>x.
     and_then (gaussian_kl_batch mu_i mu A_i A) (\<lambda>xs. Inr (x # xs)))"
| "gaussian_kl_batch _ _ _ _ = Inl RuntimeError"

definition mean_option :: "real option list \<Rightarrow> real option" where
  "mean_option xs = (if list_all (\<lambda>x. x \<noteq> None) xs then Some (mean (map the xs)) else None)"

definition gaussian_kl ::
    "real list list \<Rightarrow> real list list \<Rightarrow> matrix list \<Rightarrow> matrix list
     \<Rightarrow> py_error + real \<times> real option" where
  "gaussian_kl mu_i mu A_i A =
     and_then (gaussian_kl_batch mu_i mu A_i A) (\<lambda>inner.
       Inr (1 / 2 * mean (map fst inner),
            map_option (\<lambda>m. 1 / 2 * m) (mean_option (map snd inner))))"

text \<open>
  The closed forms the function is documented to return, for one element of a batch,
  from the covariances \<open>Sigma_i = A_i A_i\<^sup>T\<close> and \<open>Sigma = A A\<^sup>T\<close> of dimension \<open>n\<close>:
  \<open>KL(N(mu_i, Sigma_i) || N(mu, Sigma_i)) = 1/2 (mu - mu_i)\<^sup>T Sigma_i\<^sup>-\<^sup>1 (mu - mu_i)\<close> and
  \<open>KL(N(mu_i, Sigma_i) || N(mu_i, Sigma)) = 1/2 (log (det Sigma / det Sigma_i) - n +
  tr (Sigma\<^sup>-\<^sup>1 Sigma_i))\<close>.
\<close>

definition kl_mu_closed_form :: "real list \<Rightarrow> real list \<Rightarrow> matrix \<Rightarrow> py_error + real" where
  "kl_mu_closed_form mu_i mu cov_i =
     and_then (inverse_matrix cov_i) (\<lambda>sigma_i_inv.
     and_then (tensor_zip (-) mu mu_i) (\<lambda>d.
       Inr (1 / 2 * dot d (map (\<lambda>row. dot row d) sigma_i_inv))))"

definition kl_sigma_closed_form :: "nat \<Rightarrow> matrix \<Rightarrow> matrix \<Rightarrow> py_error + real" where
  "kl_sigma_closed_form n cov_i cov =
     and_then (inverse_matrix cov) (\<lambda>sigma_inv.
     and_then (matmul sigma_inv cov_i) (\<lambda>prod.
       Inr (1 / 2 * (ln (det cov / det cov_i) - real n + btr prod))))"

subsection \<open>Claim about the closed forms\<close>

text \<open>
  The example: a batch of one pair of Gaussians of dimension 2 with the same Cholesky
  factor \<open>A_i = A = [[1, 0], [1, 1]]\<close>, so the same covariance \<open>[[1, 1], [1, 2]]\<close>, and
  the means \<open>mu_i = [0, 0]\<close> and \<open>mu = [1, 0]\<close>.
\<close>

lemma upt_2: "[0..<2] = [0, 1]"
  by (simp add: upt_rec numeral_eq_Suc)

lemma example_covariance: "matmul [[1, 0], [1, 1]] (bt [[1, 0], [1, 1]]) = Inr [[1, 1], [1, 2]]"
  by (simp add: matmul_def cols_def bt_def dot_def)

lemma example_inverse: "inverse_matrix [[1, 1], [1, 2]] = Inr [[2, - 1], [- 1, 1]]"
  by (simp add: inverse_matrix_def is_matrix_def cofactor_def minor_def drop_col_def upt_2)

lemma example_inverse_det: "torch_det [[2, - 1], [- 1, 1]] = Inr 1"
  by (simp add: torch_det_def is_matrix_def drop_col_def upt_2)

lemma example_inverse_product:
  "matmul [[2, - 1], [- 1, 1]] [[2, - 1], [- 1, 1]] = Inr [[5, - 3], [- 3, 2]]"
  by (simp add: matmul_def cols_def bt_def dot_def)

lemma example_closed_form_product:
  "matmul [[2, - 1], [- 1, 1]] [[1, 1], [1, 2]] = Inr [[1, 0], [0, 1]]"
  by (simp add: matmul_def cols_def bt_def dot_def)

lemma gaussian_kl_example:
  "gaussian_kl [[0, 0]] [[1, 0]] [[[1, 0], [1, 1]]] [[[1, 0], [1, 1]]] = Inr (1, Some (5 / 2))"
  by (simp add: gaussian_kl_def gaussian_kl_inner_def and_then_def example_covariance
      example_inverse example_inverse_det example_inverse_product
      matmul_def cols_def bt_def dot_def tensor_zip_def column_def
      squeeze_def torch_log_def btr_def diagonal_def mean_option_def mean_def)

lemma kl_mu_closed_form_example: "kl_mu_closed_form [0, 0] [1, 0] [[1, 1], [1, 2]] = Inr 1"
  by (simp add: kl_mu_closed_form_def example_inverse and_then_def tensor_zip_def dot_def)

lemma kl_sigma_closed_form_example:
  "kl_sigma_closed_form 2 [[1, 1], [1, 2]] [[1, 1], [1, 2]] = Inr 0"
  by (simp add: kl_sigma_closed_form_def and_then_def example_inverse
      example_closed_form_product btr_def diagonal_def drop_col_def upt_2)

text \<open>
  C7 fails on the code. The first output is the mean-shift term: on the example it is
  1, as the closed form. The second output is not the covariance term: the code takes
  \<open>log (det Sigma\<^sup>-\<^sup>1 / det Sigma_i\<^sup>-\<^sup>1)\<close>, which is \<open>log (det Sigma_i / det Sigma)\<close>, and the
  trace of \<open>Sigma_i\<^sup>-\<^sup>1 Sigma\<^sup>-\<^sup>1\<close> in place of \<open>Sigma\<^sup>-\<^sup>1 Sigma_i\<close>. For the two equal
  covariances of the example the divergence is 0, and the code returns \<open>5/2\<close>; for the
  equal covariances \<open>[[4]]\<close> of dimension 1 it returns the negative number \<open>-15/32\<close>.
\<close>

theorem gaussian_kl_covariance_term_differs:
  "gaussian_kl [[0, 0]] [[1, 0]] [[[1, 0], [1, 1]]] [[[1, 0], [1, 1]]] = Inr (1, Some (5 / 2))
   \<and> kl_mu_closed_form [0, 0] [1, 0] [[1, 1], [1, 2]] = Inr 1
   \<and> kl_sigma_closed_form 2 [[1, 1], [1, 2]] [[1, 1], [1, 2]] = Inr 0
   \<and> gaussian_kl [[0]] [[0]] [[[2]]] [[[2]]] = Inr (0, Some (- (15 / 32)))
   \<and> kl_sigma_closed_form 1 [[4]] [[4]] = Inr 0"
proof -
  have one: "gaussian_kl [[0]] [[0]] [[[2]]] [[[2]]] = Inr (0, Some (- (15 / 32)))"
    by (simp add: gaussian_kl_def gaussian_kl_inner_def and_then_def matmul_def cols_def bt_def dot_def
        inverse_matrix_def is_matrix_def cofactor_def minor_def drop_col_def torch_det_def
        torch_log_def tensor_zip_def column_def squeeze_def btr_def diagonal_def
        mean_option_def mean_def Let_def)
  have one_closed: "kl_sigma_closed_form 1 [[4]] [[4]] = Inr 0"
    by (simp add: kl_sigma_closed_form_def and_then_def matmul_def cols_def bt_def dot_def
        inverse_matrix_def is_matrix_def cofactor_def minor_def drop_col_def btr_def
        diagonal_def)
  from gaussian_kl_example kl_mu_closed_form_example kl_sigma_closed_form_example
    one one_closed
  show ?thesis by blast
qed

end
